theory Spec2Isabelle
  imports Main
begin

section \<open>JavaScript values\<close>

text \<open>
  A JavaScript string is modelled as a list of 8-bit characters (the code units below 256);
  a value that may be \<^verbatim>\<open>undefined\<close> or \<^verbatim>\<open>null\<close> is a \<^typ>\<open>string option\<close>.
  \<open>falsy v\<close> is the test \<^verbatim>\<open>!v\<close> on such a value: true on \<^verbatim>\<open>undefined\<close> and on the empty string.
\<close>

definition falsy :: "string option \<Rightarrow> bool" where
  "falsy v = (v = None \<or> v = Some [])"

text \<open>\<^verbatim>\<open>s.indexOf(c)\<close> for a one-character search string: the first position, or -1.\<close>

fun indexOf :: "string \<Rightarrow> char \<Rightarrow> int" where
  "indexOf [] c = - 1"
| "indexOf (x # xs) c =
     (if x = c then 0 else (if indexOf xs c < 0 then - 1 else indexOf xs c + 1))"

text \<open>\<^verbatim>\<open>s.split(c)\<close> for a one-character separator; the result is never empty.\<close>

fun split :: "char \<Rightarrow> string \<Rightarrow> string list" where
  "split c [] = [[]]"
| "split c (x # xs) =
     (if x = c then [] # split c xs else (x # hd (split c xs)) # tl (split c xs))"



subsection \<open>The regular expressions the code uses\<close>

text \<open>
  The fragment of JavaScript regular expressions that \<^verbatim>\<open>/^.{1,}\.(crypto)$/\<close> needs: a
  pattern is a sequence of items, each one atom or an atom repeated once or more
  (\<^verbatim>\<open>{1,}\<close>); an atom is \<^verbatim>\<open>.\<close> (any character but a line terminator) or a literal
  character. The capture group does not change what \<^verbatim>\<open>test\<close> answers. The pattern is
  anchored by \<^verbatim>\<open>^\<close> and \<^verbatim>\<open>$\<close> (no flags), so \<^verbatim>\<open>test\<close> asks for a match of the whole
  string; \<open>regex_test\<close> backtracks over the lengths of a repetition, longest first.
\<close>

datatype atom = AnyChar | Lit char

datatype item = Once atom | Many1 atom

definition isLineTerminator :: "char \<Rightarrow> bool" where
  "isLineTerminator c = (c = CHR 0x0A \<or> c = CHR 0x0D)"

fun atom_matches :: "atom \<Rightarrow> char \<Rightarrow> bool" where
  "atom_matches AnyChar c = (\<not> isLineTerminator c)"
| "atom_matches (Lit d) c = (c = d)"

fun regex_test :: "item list \<Rightarrow> string \<Rightarrow> bool" where
  "regex_test [] s = (s = [])"
| "regex_test (Once a # r) [] = False"
| "regex_test (Once a # r) (c # s) = (atom_matches a c \<and> regex_test r s)"
| "regex_test (Many1 a # r) [] = False"
| "regex_test (Many1 a # r) (c # s) =
     (atom_matches a c \<and> (regex_test (Many1 a # r) s \<or> regex_test r s))"

definition supported_pattern :: "item list" where
  "supported_pattern = Many1 AnyChar # map (\<lambda>c. Once (Lit c)) ''.crypto''"

section \<open>Errors\<close>

text \<open>
  Modelled from the spec: the enumeration \<^verbatim>\<open>ResolutionErrorCode\<close> of
  \<^verbatim>\<open>./resolutionError\<close>, which is not among the sources; its kinds are those of the
  error taxonomy (section 7 of the specification).
\<close>

datatype ResolutionErrorCode =
    UnregisteredDomain
  | UnspecifiedResolver
  | RecordNotFound
  | UnspecifiedCurrency
  | UnsupportedDomain
  | MethodNotSupported
  | ConfigurationError

text \<open>
  What the code throws: a \<^verbatim>\<open>ResolutionError\<close> with its kind and its context object (the
  fields in the order the code writes them), or a plain JavaScript \<^verbatim>\<open>Error\<close> with its
  message.
\<close>

datatype error =
    ResolutionError ResolutionErrorCode "(string \<times> string) list"
  | Error string

fun codeOf :: "error \<Rightarrow> ResolutionErrorCode option" where
  "codeOf (ResolutionError k ctx) = Some k"
| "codeOf (Error msg) = None"

definition failsWith :: "error + 'a \<Rightarrow> ResolutionErrorCode \<Rightarrow> bool" where
  "failsWith r k = (case r of Inl e \<Rightarrow> codeOf e = Some k | Inr v \<Rightarrow> False)"

text \<open>
  Modelled from the spec: \<^verbatim>\<open>ignoreResolutionError\<close> of the base class
  \<^verbatim>\<open>./namingService\<close>, which is not among the sources. Section 4.2: run an operation, and
  if it fails with exactly kind K, substitute a null/absent result instead of propagating;
  any other failure kind still propagates unchanged.
\<close>

definition ignoreResolutionError ::
  "ResolutionErrorCode \<Rightarrow> error + string option \<Rightarrow> error + string option" where
  "ignoreResolutionError code promise =
     (case promise of
        Inr v \<Rightarrow> Inr v
      | Inl e \<Rightarrow> if codeOf e = Some code then Inr None else Inl e)"

section \<open>The hashing module\<close>

subsection \<open>Keccak-256\<close>

text \<open>
  Modelled from the spec: the fixed cryptographic hash function \<open>H\<close> of section 4.1, which
  the hashing module takes from a library. It is Keccak-256 (rate 1088, capacity 512, padding
  \<open>10*1\<close>, 24 rounds of Keccak-f[1600]), the function whose values the fixtures of
  \<^verbatim>\<open>Cns.test.ts\<close> are. A lane is 64 bits, least significant first; the state is 25 lanes,
  lane \<open>(x, y)\<close> at position \<open>x + 5 * y\<close>; a byte is a \<^typ>\<open>char\<close>.
\<close>

type_synonym lane = "bool list"

fun xor_lane :: "lane \<Rightarrow> lane \<Rightarrow> lane" where
  "xor_lane (a # as) (b # bs) = (a \<noteq> b) # xor_lane as bs"
| "xor_lane _ _ = []"

fun chi_lane :: "lane \<Rightarrow> lane \<Rightarrow> lane \<Rightarrow> lane" where
  "chi_lane (a # as) (b # bs) (c # cs) = (a \<noteq> (\<not> b \<and> c)) # chi_lane as bs cs"
| "chi_lane _ _ _ = []"

definition rotl :: "nat \<Rightarrow> lane \<Rightarrow> lane" where
  "rotl n l = drop (64 - n) l @ take (64 - n) l"

fun bits_of_int :: "nat \<Rightarrow> int \<Rightarrow> bool list" where
  "bits_of_int 0 k = []"
| "bits_of_int (Suc n) k = odd k # bits_of_int n (k div 2)"

definition RC :: "lane list" where
  "RC = map (bits_of_int 64)
        [0x0000000000000001, 0x0000000000008082, 0x800000000000808A, 0x8000000080008000,
         0x000000000000808B, 0x0000000080000001, 0x8000000080008081, 0x8000000000008009,
         0x000000000000008A, 0x0000000000000088, 0x0000000080008009, 0x000000008000000A,
         0x000000008000808B, 0x800000000000008B, 0x8000000000008089, 0x8000000000008003,
         0x8000000000008002, 0x8000000000000080, 0x000000000000800A, 0x800000008000000A,
         0x8000000080008081, 0x8000000000008080, 0x0000000080000001, 0x8000000080008008]"

definition ROT :: "nat list" where
  "ROT = [0, 1, 62, 28, 27,  36, 44, 6, 55, 20,  3, 10, 43, 25, 39,
          41, 45, 15, 21, 8,  18, 2, 61, 56, 14]"

text \<open>Lane \<open>(x, y)\<close> moves to \<open>(y, 2x + 3y)\<close>: position \<open>j\<close> of the result reads position \<open>PI ! j\<close>.\<close>

definition PI :: "nat list" where
  "PI = [0, 6, 12, 18, 24,  3, 9, 10, 16, 22,  1, 7, 13, 19, 20,
         4, 5, 11, 17, 23,  2, 8, 14, 15, 21]"

fun chunks :: "nat \<Rightarrow> 'a list \<Rightarrow> 'a list list" where
  "chunks n [] = []"
| "chunks n (x # xs) =
     (if n = 0 then [] else take n (x # xs) # chunks n (drop n (x # xs)))"

fun map3 :: "('a \<Rightarrow> 'b \<Rightarrow> 'c \<Rightarrow> 'd) \<Rightarrow> 'a list \<Rightarrow> 'b list \<Rightarrow> 'c list \<Rightarrow> 'd list" where
  "map3 f (a # as) (b # bs) (c # cs) = f a b c # map3 f as bs cs"
| "map3 f _ _ _ = []"

definition xor_plane :: "lane list \<Rightarrow> lane list \<Rightarrow> lane list" where
  "xor_plane p q = map2 xor_lane p q"

definition theta_c :: "lane list \<Rightarrow> lane list" where
  "theta_c st = foldl xor_plane (replicate 5 (replicate 64 False)) (chunks 5 st)"

definition theta_d :: "lane list \<Rightarrow> lane list" where
  "theta_d c = xor_plane (rotate 4 c) (map (rotl 1) (rotate 1 c))"

definition theta :: "lane list \<Rightarrow> lane list" where
  "theta st = concat (map (xor_plane (theta_d (theta_c st))) (chunks 5 st))"

definition rho :: "lane list \<Rightarrow> lane list" where
  "rho st = map2 rotl ROT st"

definition pi_step :: "lane list \<Rightarrow> lane list" where
  "pi_step st = map ((!) st) PI"

definition chi_plane :: "lane list \<Rightarrow> lane list" where
  "chi_plane p = map3 chi_lane p (rotate 1 p) (rotate 2 p)"

definition chi :: "lane list \<Rightarrow> lane list" where
  "chi st = concat (map chi_plane (chunks 5 st))"

definition iota :: "lane \<Rightarrow> lane list \<Rightarrow> lane list" where
  "iota rc st = xor_lane (hd st) rc # tl st"

definition keccak_round :: "lane list \<Rightarrow> lane \<Rightarrow> lane list" where
  "keccak_round st rc = iota rc (chi (pi_step (rho (theta st))))"

definition keccak_f :: "lane list \<Rightarrow> lane list" where
  "keccak_f st = foldl keccak_round st RC"

definition pad :: "bool list \<Rightarrow> bool list" where
  "pad m =
     m @ [True] @ replicate ((1088 - (length m + 2) mod 1088) mod 1088) False @ [True]"

definition absorb :: "lane list \<Rightarrow> bool list \<Rightarrow> lane list" where
  "absorb st block =
     keccak_f (xor_plane st (chunks 64 block @ replicate 8 (replicate 64 False)))"

fun bits_of_char :: "char \<Rightarrow> bool list" where
  "bits_of_char (Char b0 b1 b2 b3 b4 b5 b6 b7) = [b0, b1, b2, b3, b4, b5, b6, b7]"

fun char_of_bits :: "bool list \<Rightarrow> char" where
  "char_of_bits [b0, b1, b2, b3, b4, b5, b6, b7] = Char b0 b1 b2 b3 b4 b5 b6 b7"
| "char_of_bits _ = CHR 0x00"

definition keccak_256 :: "string \<Rightarrow> string" where
  "keccak_256 m =
     map char_of_bits (chunks 8 (concat (take 4
       (foldl absorb (replicate 25 (replicate 64 False))
          (chunks 1088 (pad (concat (map bits_of_char m))))))))"

subsection \<open>Bytes and hexadecimal strings\<close>

text \<open>The UTF-8 encoding of a character below 256: one byte below 128, else two.\<close>

fun utf8_char :: "char \<Rightarrow> string" where
  "utf8_char (Char b0 b1 b2 b3 b4 b5 b6 b7) =
     (if b7 then [Char b6 True False False False False True True,
                  Char b0 b1 b2 b3 b4 b5 False True]
      else [Char b0 b1 b2 b3 b4 b5 b6 False])"

definition utf8 :: "string \<Rightarrow> string" where
  "utf8 s = concat (map utf8_char s)"

definition hexdigit :: "nat \<Rightarrow> char" where
  "hexdigit n = ''0123456789abcdef'' ! n"

fun nibble :: "bool \<Rightarrow> bool \<Rightarrow> bool \<Rightarrow> bool \<Rightarrow> nat" where
  "nibble b3 b2 b1 b0 = 8 * of_bool b3 + 4 * of_bool b2 + 2 * of_bool b1 + of_bool b0"

fun hex_of_byte :: "char \<Rightarrow> string" where
  "hex_of_byte (Char b0 b1 b2 b3 b4 b5 b6 b7) =
     [hexdigit (nibble b7 b6 b5 b4), hexdigit (nibble b3 b2 b1 b0)]"

definition hex_of_bytes :: "string \<Rightarrow> string" where
  "hex_of_bytes bs = concat (map hex_of_byte bs)"

definition hexval :: "char \<Rightarrow> nat option" where
  "hexval c =
     (let n = (of_char c :: nat) in
      if 48 \<le> n \<and> n \<le> 57 then Some (n - 48)
      else if 97 \<le> n \<and> n \<le> 102 then Some (n - 87)
      else if 65 \<le> n \<and> n \<le> 70 then Some (n - 55)
      else None)"

text \<open>Decoding stops at the first pair that is not two hexadecimal digits.\<close>

fun bytes_of_hex :: "string \<Rightarrow> string" where
  "bytes_of_hex (a # b # rest) =
     (case hexval a of
        None \<Rightarrow> []
      | Some hi \<Rightarrow>
          (case hexval b of
             None \<Rightarrow> []
           | Some lo \<Rightarrow> char_of (16 * hi + lo) # bytes_of_hex rest))"
| "bytes_of_hex _ = []"

text \<open>\<^verbatim>\<open>s.replace(/^0x/, '')\<close>.\<close>

fun strip0x :: "string \<Rightarrow> string" where
  "strip0x (a # b # rest) = (if a = CHR ''0'' \<and> b = CHR ''x'' then rest else a # b # rest)"
| "strip0x s = s"

subsection \<open>Namehash and childhash\<close>

type_synonym nodeHash = string

record options =
  prefix :: bool

text \<open>One step of the recursion of section 4.1: \<open>next = H(prev || H(label))\<close>, on bytes.\<close>

definition hash_step :: "string \<Rightarrow> string \<Rightarrow> string" where
  "hash_step prev label = keccak_256 (prev @ keccak_256 (utf8 label))"

definition ZERO_HASH :: nodeHash where
  "ZERO_HASH = replicate 64 (CHR ''0'')"

text \<open>
  Modelled from the spec: the default export of \<^verbatim>\<open>./cns/namehash\<close>, which is not among the
  sources. Section 4.1: split the domain into labels by \<^verbatim>\<open>.\<close>; starting from the fixed root
  hash (all-zero, fixed width), process labels from rightmost (suffix) to leftmost, at each
  step computing \<open>next = H(prev || H(label))\<close>. Hashes are exchanged as hexadecimal strings
  (section 6), here with the \<^verbatim>\<open>0x\<close> marker the fixtures carry.
\<close>

definition hash :: "string \<Rightarrow> nodeHash" where
  "hash domain =
     ''0x'' @ hex_of_bytes
       (foldr (\<lambda>label prev. hash_step prev label) (split (CHR ''.'') domain)
          (bytes_of_hex ZERO_HASH))"

text \<open>
  Modelled from the spec: \<^verbatim>\<open>childhash\<close> of \<^verbatim>\<open>./cns/namehash\<close>, which is not among the
  sources. Section 4.1: it exposes exactly one step of the recursion. The parent is read
  with or without the \<^verbatim>\<open>0x\<close> marker (the tests pass both); \<open>prefix\<close> says whether the result
  carries the marker.
\<close>

definition childhash_of :: "nodeHash \<Rightarrow> string \<Rightarrow> options \<Rightarrow> nodeHash" where
  "childhash_of parent label opts =
     (if prefix opts then ''0x'' else []) @
     hex_of_bytes (hash_step (bytes_of_hex (strip0x parent)) label)"

section \<open>The class Cns\<close>

subsection \<open>What the class imports\<close>

datatype abi = cnsInterface | resolverInterface

text \<open>
  Modelled from the spec: \<^verbatim>\<open>buildContract\<close> of the base class, which is not among the
  sources: the handle of a contract, its interface and the address it is bound to (sections
  3 and 6; the address may be absent when no resolver was found).
\<close>

datatype Contract = Contract abi "string option"

definition buildContract :: "abi \<Rightarrow> string option \<Rightarrow> Contract" where
  "buildContract interface addr = Contract interface addr"

text \<open>
  The contract-call transport and the null-address test are external to the class
  (\<^verbatim>\<open>callMethod\<close> of the base class, \<^verbatim>\<open>isNullAddress\<close> of \<^verbatim>\<open>./types\<close>) and are taken as
  parameters: \<open>callMethod env contract method params\<close> is the outcome of awaiting the call,
  a thrown error or the returned value.
\<close>

record env =
  callMethod :: "Contract option \<Rightarrow> string \<Rightarrow> string list \<Rightarrow> error + string option"
  isNullAddress :: "string \<Rightarrow> bool"

text \<open>The normalised source the constructor reads: network, url and registry, each optional.\<close>

datatype SourceDefinition =
  SourceDefinition (src_network: "string option") (src_url: "string option")
    (src_registry: "string option")

record Cns =
  network :: string
  url :: string
  registryAddress :: "string option"
  registryContract :: "Contract option"

subsection \<open>Construction\<close>

definition RegistryMap :: "string \<Rightarrow> string option" where
  "RegistryMap = [''mainnet'' \<mapsto> ''0xD1E5b0FF1287aA9f9A268759062E4Ab08b9Dacbe'']"

text \<open>
  \<^verbatim>\<open>constructor(source)\<close>; \<open>normalizeSource\<close> is the base class's, taken as a parameter.
\<close>

definition new_Cns :: "('s \<Rightarrow> SourceDefinition) \<Rightarrow> 's \<Rightarrow> error + Cns" where
  "new_Cns normalizeSource source =
     (let src = normalizeSource source in
      if falsy (src_network src)
      then Inl (Error ''Unspecified network in Resolution CNS configuration'')
      else if falsy (src_url src)
      then Inl (Error ''Unspecified url in Resolution CNS configuration'')
      else
        (let addr = (if \<not> falsy (src_registry src) then src_registry src
                     else RegistryMap (the (src_network src)))
         in Inr \<lparr> network = the (src_network src),
                  url = the (src_url src),
                  registryAddress = addr,
                  registryContract =
                    (if \<not> falsy addr then Some (buildContract cnsInterface addr) else None) \<rparr>))"

subsection \<open>Domains and hashes\<close>

definition isSupportedDomain :: "string \<Rightarrow> bool" where
  "isSupportedDomain domain =
     (domain = ''crypto'' \<or>
      (indexOf domain (CHR ''.'') > 0 \<and> regex_test supported_pattern domain))"

text \<open>
  Modelled from the spec: \<^verbatim>\<open>ensureSupportedDomain\<close> of the base class, which is not among
  the sources. Sections 4.5 and 7: a domain that the service does not support fails with
  \<open>UnsupportedDomain\<close>, before any network call.
\<close>

definition ensureSupportedDomain :: "string \<Rightarrow> error + unit" where
  "ensureSupportedDomain domain =
     (if isSupportedDomain domain then Inr ()
      else Inl (ResolutionError UnsupportedDomain [(''domain'', domain)]))"

typedecl ResolutionResponse

definition resolve :: "string \<Rightarrow> error + ResolutionResponse" where
  "resolve domain = Inl (Error ''This method is unsupported for CNS'')"

definition namehash :: "string \<Rightarrow> error + nodeHash" where
  "namehash domain =
     (case ensureSupportedDomain domain of
        Inl e \<Rightarrow> Inl e
      | Inr u \<Rightarrow> Inr (hash domain))"

text \<open>The third argument is optional: \<open>None\<close> is the call without it.\<close>

definition childhash :: "nodeHash \<Rightarrow> string \<Rightarrow> options option \<Rightarrow> nodeHash" where
  "childhash parent label opts =
     childhash_of parent label
       (case opts of None \<Rightarrow> \<lparr> prefix = True \<rparr> | Some given \<Rightarrow> given)"

subsection \<open>Registry and resolver\<close>

definition getResolver :: "env \<Rightarrow> Cns \<Rightarrow> nodeHash \<Rightarrow> error + string option" where
  "getResolver E cns tokenId =
     ignoreResolutionError RecordNotFound
       (callMethod E (registryContract cns) ''resolverOf'' [tokenId])"

definition owner :: "env \<Rightarrow> Cns \<Rightarrow> string \<Rightarrow> error + string option" where
  "owner E cns domain =
     (case namehash domain of
        Inl e \<Rightarrow> Inl e
      | Inr tokenId \<Rightarrow> callMethod E (registryContract cns) ''ownerOf'' [tokenId])"

definition getTtl :: "env \<Rightarrow> Contract \<Rightarrow> string \<Rightarrow> string list \<Rightarrow> error + string option" where
  "getTtl E contract methodname params = callMethod E (Some contract) methodname params"

definition getRecord :: "env \<Rightarrow> Contract \<Rightarrow> string \<Rightarrow> string list \<Rightarrow> error + string option" where
  "getRecord E contract methodname params = callMethod E (Some contract) methodname params"



text \<open>The method \<^verbatim>\<open>record\<close>.\<close>

definition record_of :: "env \<Rightarrow> Cns \<Rightarrow> string \<Rightarrow> string \<Rightarrow> error + string" where
  "record_of E cns domain key =
     (case namehash domain of
        Inl e \<Rightarrow> Inl e
      | Inr tokenId \<Rightarrow>
          (case getResolver E cns tokenId of
             Inl e \<Rightarrow> Inl e
           | Inr resolver \<Rightarrow>
               (case getRecord E (buildContract resolverInterface resolver) ''get''
                       [key, tokenId] of
                  Inl e \<Rightarrow> Inl e
                | Inr rec \<Rightarrow>
                    if falsy rec \<or> isNullAddress E (the rec)
                    then Inl (ResolutionError RecordNotFound
                           [(''recordName'', key), (''domain'', domain)])
                    else Inr (the rec))))"

definition ipfsHash :: "env \<Rightarrow> Cns \<Rightarrow> string \<Rightarrow> error + string" where
  "ipfsHash E cns domain = record_of E cns domain ''ipfs.html.value''"

definition email :: "env \<Rightarrow> Cns \<Rightarrow> string \<Rightarrow> error + string" where
  "email E cns domain = record_of E cns domain ''whois.email.value''"

definition httpUrl :: "env \<Rightarrow> Cns \<Rightarrow> string \<Rightarrow> error + string" where
  "httpUrl E cns domain = record_of E cns domain ''ipfs.redirect_domain.value''"

section \<open>Reference points\<close>

text \<open>
  The reading of \<open>isSupportedDomain\<close> in the specification's words (section 4.4): the domain
  equals the suffix, or ends in \<^verbatim>\<open>.\<close> + suffix with at least one non-empty preceding label.
\<close>

definition isSupportedDomain_spec :: "string \<Rightarrow> bool" where
  "isSupportedDomain_spec domain =
     (domain = ''crypto'' \<or>
      (drop (length domain - 7) domain = ''.crypto'' \<and>
       list_ex (\<lambda>l. l \<noteq> []) (split (CHR ''.'') (take (length domain - 7) domain))))"

text \<open>The instance that the constructor builds for mainnet and an endpoint.\<close>

definition cns_mainnet :: Cns where
  "cns_mainnet =
     \<lparr> network = ''mainnet'', url = ''https://mainnet.infura.io'',
       registryAddress = Some ''0xD1E5b0FF1287aA9f9A268759062E4Ab08b9Dacbe'',
       registryContract =
         Some (buildContract cnsInterface (Some ''0xD1E5b0FF1287aA9f9A268759062E4Ab08b9Dacbe'')) \<rparr>"

text \<open>
  A backend with fixed answers: what \<^verbatim>\<open>resolverOf\<close> does, what \<^verbatim>\<open>ownerOf\<close> returns, and
  what every other call (\<^verbatim>\<open>get\<close>) returns.
\<close>

definition backend :: "error + string option \<Rightarrow> string option \<Rightarrow> string option \<Rightarrow> env" where
  "backend resolverAnswer ownerAnswer recordAnswer =
     \<lparr> callMethod =
         (\<lambda>contract methodname params.
            if methodname = ''resolverOf'' then resolverAnswer
            else if methodname = ''ownerOf'' then Inr ownerAnswer
            else Inr recordAnswer),
       isNullAddress = (\<lambda>a. a = ''0x0000000000000000000000000000000000000000'') \<rparr>"

section \<open>Supported domains\<close>

lemma supported_brad: "isSupportedDomain ''brad.crypto''"
  by code_simp

lemma unsupported_zil: "\<not> isSupportedDomain ''brad.zil''"
  by code_simp

lemma namehash_supported: "isSupportedDomain domain \<Longrightarrow> namehash domain = Inr (hash domain)"
  by (simp add: namehash_def ensureSupportedDomain_def)

lemma indexOf_ge: "- 1 \<le> indexOf s c"
  by (induction s) auto

lemma indexOf_neg_iff: "indexOf s c < 0 \<longleftrightarrow> c \<notin> set s"
  using indexOf_ge [of _ c] by (induction s) (auto simp: add1_zle_eq)

lemma indexOf_pos_iff: "0 < indexOf s c \<longleftrightarrow> s \<noteq> [] \<and> hd s \<noteq> c \<and> c \<in> set s"
proof (cases s)
  case Nil
  then show ?thesis by simp
next
  case (Cons x xs)
  have "- 1 \<le> indexOf xs c" by (rule indexOf_ge)
  then show ?thesis
    using Cons indexOf_neg_iff [of xs c] by auto
qed

lemma regex_test_literals:
  "regex_test (map (\<lambda>c. Once (Lit c)) lit) s \<longleftrightarrow> s = lit"
proof (induction lit arbitrary: s)
  case Nil
  then show ?case by simp
next
  case (Cons a lit)
  then show ?case by (cases s) auto
qed

lemma regex_test_many1:
  "regex_test (Many1 AnyChar # r) s \<longleftrightarrow>
     (\<exists>X Y. s = X @ Y \<and> X \<noteq> [] \<and> list_all (\<lambda>c. \<not> isLineTerminator c) X \<and> regex_test r Y)"
proof (induction s)
  case Nil
  then show ?case by simp
next
  case (Cons c s)
  show ?case
  proof
    assume L: "regex_test (Many1 AnyChar # r) (c # s)"
    then have c: "\<not> isLineTerminator c" by simp
    from L have "regex_test (Many1 AnyChar # r) s \<or> regex_test r s" by simp
    then show "\<exists>X Y. c # s = X @ Y \<and> X \<noteq> [] \<and>
        list_all (\<lambda>c. \<not> isLineTerminator c) X \<and> regex_test r Y"
    proof
      assume "regex_test (Many1 AnyChar # r) s"
      with Cons.IH obtain X Y where
        "s = X @ Y" "list_all (\<lambda>c. \<not> isLineTerminator c) X" "regex_test r Y"
        by blast
      with c have "c # s = (c # X) @ Y \<and> c # X \<noteq> [] \<and>
          list_all (\<lambda>c. \<not> isLineTerminator c) (c # X) \<and> regex_test r Y"
        by simp
      then show ?thesis by blast
    next
      assume "regex_test r s"
      with c have "c # s = [c] @ s \<and> [c] \<noteq> [] \<and>
          list_all (\<lambda>c. \<not> isLineTerminator c) [c] \<and> regex_test r s"
        by simp
      then show ?thesis by blast
    qed
  next
    assume "\<exists>X Y. c # s = X @ Y \<and> X \<noteq> [] \<and>
        list_all (\<lambda>c. \<not> isLineTerminator c) X \<and> regex_test r Y"
    then obtain X Y where XY: "c # s = X @ Y" "X \<noteq> []"
        "list_all (\<lambda>c. \<not> isLineTerminator c) X" "regex_test r Y"
      by blast
    then obtain X' where X: "X = c # X'" by (cases X) auto
    with XY have s: "s = X' @ Y" and c: "\<not> isLineTerminator c"
      and X': "list_all (\<lambda>c. \<not> isLineTerminator c) X'" by auto
    show "regex_test (Many1 AnyChar # r) (c # s)"
    proof (cases "X' = []")
      case True
      with s XY(4) c show ?thesis by simp
    next
      case False
      with s X' XY(4) Cons.IH have "regex_test (Many1 AnyChar # r) s" by blast
      with c show ?thesis by simp
    qed
  qed
qed

lemma regex_test_supported:
  "regex_test supported_pattern s \<longleftrightarrow>
     (\<exists>X. s = X @ ''.crypto'' \<and> X \<noteq> [] \<and> list_all (\<lambda>c. \<not> isLineTerminator c) X)"
  unfolding supported_pattern_def regex_test_many1 regex_test_literals by blast

text \<open>
  Claim C6, as the code has it: \<open>isSupportedDomain domain\<close> is true if and only if the domain
  equals \<^verbatim>\<open>crypto\<close>, or is \<open>X\<close> followed by \<^verbatim>\<open>.crypto\<close> where \<open>X\<close> is not empty, does not
  begin with a dot (the guard \<^verbatim>\<open>indexOf('.') > 0\<close>) and holds no line terminator (which
  \<^verbatim>\<open>.\<close> does not match).
\<close>

theorem isSupportedDomain_iff:
  "isSupportedDomain domain \<longleftrightarrow>
     domain = ''crypto'' \<or>
     (\<exists>X. domain = X @ ''.crypto'' \<and> X \<noteq> [] \<and> hd X \<noteq> CHR ''.'' \<and>
          list_all (\<lambda>c. \<not> isLineTerminator c) X)"
proof -
  have "(0 < indexOf domain (CHR ''.'') \<and> regex_test supported_pattern domain) \<longleftrightarrow>
     (\<exists>X. domain = X @ ''.crypto'' \<and> X \<noteq> [] \<and> hd X \<noteq> CHR ''.'' \<and>
          list_all (\<lambda>c. \<not> isLineTerminator c) X)"
    unfolding regex_test_supported indexOf_pos_iff by auto
  then show ?thesis
    unfolding isSupportedDomain_def by blast
qed

theorem isSupportedDomain_iff_witness:
  "isSupportedDomain ''brad.crypto'' \<and> \<not> isSupportedDomain ''.crypto'' \<and>
   \<not> isSupportedDomain []"
  using isSupportedDomain_iff [of "''brad.crypto''"] isSupportedDomain_iff [of "''.crypto''"]
    isSupportedDomain_iff [of "[]"]
  by (simp add: isLineTerminator_def)

text \<open>
  Claim C6 as stated fails: \<^verbatim>\<open>.a.crypto\<close> ends in \<^verbatim>\<open>.crypto\<close> and the non-empty label
  \<^verbatim>\<open>a\<close> precedes it, and so does the label of \<^verbatim>\<open>a\n.crypto\<close>, yet the code rejects both.
\<close>

theorem isSupportedDomain_spec_differs:
  "isSupportedDomain_spec ''.a.crypto'' \<and> \<not> isSupportedDomain ''.a.crypto'' \<and>
   isSupportedDomain_spec (''a'' @ [CHR 0x0A] @ ''.crypto'') \<and>
   \<not> isSupportedDomain (''a'' @ [CHR 0x0A] @ ''.crypto'')"
  by code_simp

text \<open>
  Claim C9: on a domain that \<open>isSupportedDomain\<close> rejects, \<open>namehash\<close> raises an error and
  returns no hash; on a supported domain it returns the hash of the domain.
\<close>

theorem namehash_enforces_support:
  "(\<not> isSupportedDomain domain \<longrightarrow> (\<exists>e. namehash domain = Inl e)) \<and>
   (isSupportedDomain domain \<longrightarrow> namehash domain = Inr (hash domain))"
  by (simp add: namehash_def ensureSupportedDomain_def)

theorem namehash_enforces_support_witness:
  "\<not> isSupportedDomain ''brad.zil'' \<and> (\<exists>e. namehash ''brad.zil'' = Inl e) \<and>
   isSupportedDomain ''brad.crypto'' \<and> namehash ''brad.crypto'' = Inr (hash ''brad.crypto'')"
  using namehash_enforces_support [of "''brad.zil''"]
    namehash_enforces_support [of "''brad.crypto''"] supported_brad unsupported_zil
  by blast

section \<open>The unsupported aggregate operation\<close>

text \<open>
  Claim C5, as the code has it: for every domain, \<open>resolve\<close> fails at once, before any call
  of the transport (it takes none), with a plain \<^verbatim>\<open>Error\<close> whose message is
  \<^verbatim>\<open>This method is unsupported for CNS\<close>; the error carries no kind of the taxonomy.
\<close>

theorem resolve_plain_error:
  "resolve domain = Inl (Error ''This method is unsupported for CNS'') \<and>
   codeOf (Error ''This method is unsupported for CNS'') = None"
  by (simp add: resolve_def)

text \<open>Claim C5 as stated fails: the failure of \<open>resolve\<close> is not of kind MethodNotSupported.\<close>

theorem resolve_not_MethodNotSupported:
  "\<not> failsWith (resolve ''brad.crypto'') MethodNotSupported"
  by (simp add: resolve_def failsWith_def)

section \<open>The default of childhash\<close>

text \<open>
  Claim C10: \<open>childhash\<close> called without options is \<open>childhash\<close> called with
  \<^verbatim>\<open>{ prefix: true }\<close>, for every parent hash and label: the module's function is called
  with \<open>prefix = True\<close>.
\<close>

theorem childhash_default_options:
  "childhash parent label None = childhash parent label (Some \<lparr> prefix = True \<rparr>) \<and>
   childhash parent label None = childhash_of parent label \<lparr> prefix = True \<rparr>"
  by (simp add: childhash_def)

section \<open>Resolver discovery\<close>

lemma getResolver_backend:
  "getResolver (backend r ow v) cns tokenId = ignoreResolutionError RecordNotFound r"
  by (simp add: getResolver_def backend_def)

lemma getRecord_backend:
  "getRecord (backend r ow v) contract ''get'' params = Inr v"
  by (simp add: getRecord_def backend_def)

lemma owner_backend:
  "isSupportedDomain domain \<Longrightarrow> owner (backend r ow v) cns domain = Inr ow"
  by (simp add: owner_def namehash_supported backend_def)

lemma isNullAddress_backend:
  "isNullAddress (backend r ow v) a = (a = ''0x0000000000000000000000000000000000000000'')"
  by (simp add: backend_def)

text \<open>
  Claim C7: \<open>getResolver\<close> returns what the \<^verbatim>\<open>resolverOf\<close> call returns; it puts an
  absent result in the place of a failure exactly when the call fails with kind
  \<open>RecordNotFound\<close>, and passes on a failure of any other kind (or a plain error) unchanged.
  It is the one place of the class where a failure is downgraded: \<open>owner\<close>, \<open>getRecord\<close> and
  \<open>getTtl\<close> return the outcome of their call as it is.
\<close>

theorem getResolver_downgrade:
  "(\<forall>v. callMethod E (registryContract cns) ''resolverOf'' [tokenId] = Inr v \<longrightarrow>
        getResolver E cns tokenId = Inr v) \<and>
   (\<forall>e. callMethod E (registryContract cns) ''resolverOf'' [tokenId] = Inl e \<and>
        codeOf e = Some RecordNotFound \<longrightarrow> getResolver E cns tokenId = Inr None) \<and>
   (\<forall>e. callMethod E (registryContract cns) ''resolverOf'' [tokenId] = Inl e \<and>
        codeOf e \<noteq> Some RecordNotFound \<longrightarrow> getResolver E cns tokenId = Inl e) \<and>
   (isSupportedDomain domain \<longrightarrow>
        owner E cns domain = callMethod E (registryContract cns) ''ownerOf'' [hash domain]) \<and>
   getRecord E contract methodname params = callMethod E (Some contract) methodname params \<and>
   getTtl E contract methodname params = callMethod E (Some contract) methodname params"
  by (simp add: getResolver_def ignoreResolutionError_def owner_def namehash_supported
      getRecord_def getTtl_def)

theorem getResolver_downgrade_witness:
  "getResolver (backend (Inl (ResolutionError RecordNotFound [])) None None) cns_mainnet
      (hash ''brad.crypto'') = Inr None \<and>
   getResolver (backend (Inl (Error ''request failed'')) None None) cns_mainnet
      (hash ''brad.crypto'') = Inl (Error ''request failed'') \<and>
   getResolver (backend (Inl (ResolutionError UnregisteredDomain [])) None None) cns_mainnet
      (hash ''brad.crypto'') = Inl (ResolutionError UnregisteredDomain []) \<and>
   getResolver (backend (Inr (Some ''0xBD5F5ec7ed5f19b53726344540296C02584A5237'')) None None)
      cns_mainnet (hash ''brad.crypto'') = Inr (Some ''0xBD5F5ec7ed5f19b53726344540296C02584A5237'') \<and>
   isSupportedDomain ''brad.crypto'' \<and>
   owner (backend (Inr None) (Some ''0xowner'') None) cns_mainnet ''brad.crypto'' = Inr (Some ''0xowner'')"
  using getResolver_downgrade [of "backend (Inl (ResolutionError RecordNotFound [])) None None"
      cns_mainnet "hash ''brad.crypto''" "''brad.crypto''"]
    getResolver_downgrade [of "backend (Inl (Error ''request failed'')) None None"
      cns_mainnet "hash ''brad.crypto''" "''brad.crypto''"]
    getResolver_downgrade [of "backend (Inl (ResolutionError UnregisteredDomain [])) None None"
      cns_mainnet "hash ''brad.crypto''" "''brad.crypto''"]
    getResolver_downgrade [of "backend (Inr (Some ''0xBD5F5ec7ed5f19b53726344540296C02584A5237'')) None None"
      cns_mainnet "hash ''brad.crypto''" "''brad.crypto''"]
    getResolver_downgrade [of "backend (Inr None) (Some ''0xowner'') None"
      cns_mainnet "hash ''brad.crypto''" "''brad.crypto''"]
    supported_brad
  by (simp add: backend_def)

section \<open>Records\<close>

text \<open>
  Claim C1, as the code has it: for every supported domain and key, \<open>record_of\<close> looks the
  resolver up once (\<open>getResolver\<close> on the hash of the domain) and fetches the key from the
  resolver it got, present or absent; it never asks for the owner, so its outcome does not
  depend on what \<^verbatim>\<open>ownerOf\<close> answers. A failure of the lookup or of the fetch is passed on.
  A fetched value that is empty or a null address fails with \<open>RecordNotFound\<close>, carrying the
  key as \<^verbatim>\<open>recordName\<close> and the domain; any other value is returned unchanged.
\<close>

theorem record_of_protocol:
  assumes "isSupportedDomain domain"
  shows
   "(\<forall>E'. isNullAddress E' = isNullAddress E \<and>
        (\<forall>c m ps. m \<noteq> ''ownerOf'' \<longrightarrow> callMethod E' c m ps = callMethod E c m ps) \<longrightarrow>
        record_of E' cns domain key = record_of E cns domain key) \<and>
    (\<forall>e. getResolver E cns (hash domain) = Inl e \<longrightarrow> record_of E cns domain key = Inl e) \<and>
    (\<forall>resolver. getResolver E cns (hash domain) = Inr resolver \<longrightarrow>
        (\<forall>e. callMethod E (Some (Contract resolverInterface resolver)) ''get'' [key, hash domain] = Inl e \<longrightarrow>
             record_of E cns domain key = Inl e) \<and>
        (\<forall>v. callMethod E (Some (Contract resolverInterface resolver)) ''get'' [key, hash domain] = Inr v \<longrightarrow>
             record_of E cns domain key =
               (if falsy v \<or> isNullAddress E (the v)
                then Inl (ResolutionError RecordNotFound [(''recordName'', key), (''domain'', domain)])
                else Inr (the v))))"
proof -
  have frame: "record_of E' cns domain key = record_of E cns domain key"
    if "isNullAddress E' = isNullAddress E"
      and "\<forall>c m ps. m \<noteq> ''ownerOf'' \<longrightarrow> callMethod E' c m ps = callMethod E c m ps" for E'
  proof -
    have "callMethod E' c ''resolverOf'' ps = callMethod E c ''resolverOf'' ps"
      and "callMethod E' c ''get'' ps = callMethod E c ''get'' ps" for c ps
      using that(2) by simp_all
    then show ?thesis
      using that(1) assms
      by (simp add: record_of_def namehash_supported getResolver_def getRecord_def
          split: sum.splits)
  qed
  have rest: "(\<forall>e. getResolver E cns (hash domain) = Inl e \<longrightarrow> record_of E cns domain key = Inl e) \<and>
    (\<forall>resolver. getResolver E cns (hash domain) = Inr resolver \<longrightarrow>
        (\<forall>e. callMethod E (Some (Contract resolverInterface resolver)) ''get'' [key, hash domain] = Inl e \<longrightarrow>
             record_of E cns domain key = Inl e) \<and>
        (\<forall>v. callMethod E (Some (Contract resolverInterface resolver)) ''get'' [key, hash domain] = Inr v \<longrightarrow>
             record_of E cns domain key =
               (if falsy v \<or> isNullAddress E (the v)
                then Inl (ResolutionError RecordNotFound [(''recordName'', key), (''domain'', domain)])
                else Inr (the v))))"
    using assms by (simp add: record_of_def namehash_supported getRecord_def buildContract_def)
  from frame rest show ?thesis by blast
qed

theorem record_of_protocol_witness:
  "isSupportedDomain ''brad.crypto'' \<and>
   record_of (backend (Inr (Some ''0xBD5F5ec7ed5f19b53726344540296C02584A5237'')) None
       (Some ''QmVaAtQbi3EtsfpKoLzALm6vXphdi2KjMgxEDKeGg6wHuK'')) cns_mainnet ''brad.crypto''
       ''ipfs.html.value'' = Inr ''QmVaAtQbi3EtsfpKoLzALm6vXphdi2KjMgxEDKeGg6wHuK'' \<and>
   record_of (backend (Inr (Some ''0xBD5F5ec7ed5f19b53726344540296C02584A5237'')) None (Some []))
       cns_mainnet ''brad.crypto'' ''ipfs.html.value'' =
     Inl (ResolutionError RecordNotFound
        [(''recordName'', ''ipfs.html.value''), (''domain'', ''brad.crypto'')])"
proof -
  have fetch: "getResolver (backend (Inr (Some r)) None v) cns_mainnet (hash ''brad.crypto'')
        = Inr (Some r) \<Longrightarrow>
      callMethod (backend (Inr (Some r)) None v) (Some (Contract resolverInterface (Some r)))
        ''get'' [''ipfs.html.value'', hash ''brad.crypto''] = Inr v \<Longrightarrow>
      record_of (backend (Inr (Some r)) None v) cns_mainnet ''brad.crypto'' ''ipfs.html.value'' =
        (if falsy v \<or> isNullAddress (backend (Inr (Some r)) None v) (the v)
         then Inl (ResolutionError RecordNotFound
                [(''recordName'', ''ipfs.html.value''), (''domain'', ''brad.crypto'')])
         else Inr (the v))" for r v
    using record_of_protocol [OF supported_brad, of "backend (Inr (Some r)) None v" cns_mainnet
        "''ipfs.html.value''"] by blast
  have res: "getResolver (backend (Inr (Some r)) None v) cns_mainnet (hash ''brad.crypto'')
        = Inr (Some r)" for r v
    by (simp add: getResolver_backend ignoreResolutionError_def)
  have get: "callMethod (backend (Inr (Some r)) None v) (Some (Contract resolverInterface (Some r)))
        ''get'' [''ipfs.html.value'', hash ''brad.crypto''] = Inr v" for r v
    by (simp add: backend_def)
  show ?thesis
    using fetch [OF res get, of "''0xBD5F5ec7ed5f19b53726344540296C02584A5237''"
        "Some ''QmVaAtQbi3EtsfpKoLzALm6vXphdi2KjMgxEDKeGg6wHuK''"]
      fetch [OF res get, of "''0xBD5F5ec7ed5f19b53726344540296C02584A5237''" "Some []"]
      supported_brad
    by (simp add: falsy_def isNullAddress_backend)
qed

text \<open>
  Claim C1 as stated fails: with no resolver and no owner the outcome of \<open>record_of\<close> is not
  \<open>UnregisteredDomain\<close>, and with no resolver and an owner it is not \<open>UnspecifiedResolver\<close>;
  it is \<open>RecordNotFound\<close>, as the test of \<^verbatim>\<open>Cns.test.ts\<close> expects.
\<close>

theorem record_of_no_disambiguation:
  "getResolver (backend (Inl (ResolutionError RecordNotFound [])) None None) cns_mainnet
      (hash ''brad.crypto'') = Inr None \<and>
   owner (backend (Inl (ResolutionError RecordNotFound [])) None None) cns_mainnet ''brad.crypto''
      = Inr None \<and>
   \<not> failsWith (record_of (backend (Inl (ResolutionError RecordNotFound [])) None None)
        cns_mainnet ''brad.crypto'' ''ipfs.html.value'') UnregisteredDomain \<and>
   getResolver (backend (Inl (ResolutionError RecordNotFound [])) (Some ''0xowner'') None) cns_mainnet
      (hash ''brad.crypto'') = Inr None \<and>
   owner (backend (Inl (ResolutionError RecordNotFound [])) (Some ''0xowner'') None) cns_mainnet
      ''brad.crypto'' = Inr (Some ''0xowner'') \<and>
   \<not> failsWith (record_of (backend (Inl (ResolutionError RecordNotFound [])) (Some ''0xowner'') None)
        cns_mainnet ''brad.crypto'' ''ipfs.html.value'') UnspecifiedResolver \<and>
   record_of (backend (Inl (ResolutionError RecordNotFound [])) None None)
        cns_mainnet ''brad.crypto'' ''ipfs.html.value'' =
     Inl (ResolutionError RecordNotFound
        [(''recordName'', ''ipfs.html.value''), (''domain'', ''brad.crypto'')])"
  by (simp add: record_of_def namehash_supported supported_brad getResolver_backend
      getRecord_backend owner_backend ignoreResolutionError_def falsy_def failsWith_def)


section \<open>Addresses\<close>




section \<open>Construction\<close>

text \<open>
  Claim C8, at the failing inputs: with a source whose network, or whose url, is missing the
  constructor fails with a plain \<^verbatim>\<open>Error\<close>, which has no kind, and not with
  \<open>ConfigurationError\<close>; with both present it builds the instance.
\<close>

theorem new_Cns_plain_error:
  "new_Cns (\<lambda>s. s) (SourceDefinition None (Some ''https://mainnet.infura.io'') None) =
     Inl (Error ''Unspecified network in Resolution CNS configuration'') \<and>
   new_Cns (\<lambda>s. s) (SourceDefinition (Some ''mainnet'') None None) =
     Inl (Error ''Unspecified url in Resolution CNS configuration'') \<and>
   \<not> failsWith (new_Cns (\<lambda>s. s) (SourceDefinition None (Some ''https://mainnet.infura.io'') None))
       ConfigurationError \<and>
   \<not> failsWith (new_Cns (\<lambda>s. s) (SourceDefinition (Some ''mainnet'') None None))
       ConfigurationError \<and>
   new_Cns (\<lambda>s. s) (SourceDefinition (Some ''mainnet'') (Some ''https://mainnet.infura.io'') None)
     = Inr cns_mainnet"
  by (simp add: new_Cns_def falsy_def failsWith_def cns_mainnet_def RegistryMap_def Let_def)

section \<open>The recursion of the hash\<close>

lemma split_label:
  "c \<notin> set label \<Longrightarrow> split c (label @ c # rest) = label # split c rest"
  by (induction label) auto

lemma hexval_hexdigit: "hexval (hexdigit (nibble a b c d)) = Some (nibble a b c d)"
  by (cases a; cases b; cases c; cases d; simp add: hexdigit_def hexval_def)

lemma char_of_nibbles:
  "char_of (16 * nibble b7 b6 b5 b4 + nibble b3 b2 b1 b0) = Char b0 b1 b2 b3 b4 b5 b6 b7"
proof -
  have "(16 * nibble b7 b6 b5 b4 + nibble b3 b2 b1 b0 :: nat) =
      of_char (Char b0 b1 b2 b3 b4 b5 b6 b7)"
    by simp
  then show ?thesis
    by (simp only: char_of_char)
qed

lemma bytes_of_hex_byte: "bytes_of_hex (hex_of_byte c @ rest) = c # bytes_of_hex rest"
  by (cases c) (simp add: hexval_hexdigit char_of_nibbles del: nibble.simps)

lemma bytes_of_hex_of_bytes: "bytes_of_hex (hex_of_bytes bs @ rest) = bs @ bytes_of_hex rest"
  by (induction bs) (simp_all add: hex_of_bytes_def bytes_of_hex_byte)

lemma bytes_of_hex_roundtrip: "bytes_of_hex (hex_of_bytes bs) = bs"
  using bytes_of_hex_of_bytes [of bs "[]"] by simp

lemma strip0x_marker: "strip0x (''0x'' @ s) = s"
  by simp

lemma strip0x_ZERO_HASH: "strip0x ZERO_HASH = ZERO_HASH"
  by code_simp

lemma split_crypto: "split (CHR ''.'') ''crypto'' = [''crypto'']"
  by code_simp

lemma hash_child:
  assumes "CHR ''.'' \<notin> set label"
  shows "hash (label @ CHR ''.'' # parent) =
    childhash_of (hash parent) label \<lparr> prefix = True \<rparr>"
proof -
  have "split (CHR ''.'') (label @ CHR ''.'' # parent) = label # split (CHR ''.'') parent"
    using assms by (rule split_label)
  then show ?thesis
    by (simp add: hash_def childhash_of_def bytes_of_hex_roundtrip del: strip0x.simps
        add: strip0x_marker [simplified])
qed

lemma hash_root: "hash ''crypto'' = childhash_of ZERO_HASH ''crypto'' \<lparr> prefix = True \<rparr>"
  by (simp add: hash_def childhash_of_def split_crypto strip0x_ZERO_HASH)

lemma supported_world: "isSupportedDomain ''world.crypto''"
  by code_simp

lemma supported_hello_world: "isSupportedDomain ''hello.world.crypto''"
  by code_simp

lemma supported_crypto: "isSupportedDomain ''crypto''"
  by (simp add: isSupportedDomain_def)

text \<open>
  Claim C4: for a supported domain made of a label (a dot-free component, section 3), a dot
  and a parent that is itself a supported domain, \<open>childhash\<close> of the parent's \<open>namehash\<close>
  and the label is the \<open>namehash\<close> of the domain; and for the root, \<open>childhash\<close> of the zero
  hash and \<^verbatim>\<open>crypto\<close> is the \<open>namehash\<close> of \<^verbatim>\<open>crypto\<close>.
\<close>

theorem childhash_of_namehash:
  "(isSupportedDomain parent \<and> isSupportedDomain (label @ ''.'' @ parent) \<and>
      CHR ''.'' \<notin> set label \<longrightarrow>
      (\<exists>p. namehash parent = Inr p \<and>
           namehash (label @ ''.'' @ parent) = Inr (childhash p label None))) \<and>
   namehash ''crypto'' = Inr (childhash ZERO_HASH ''crypto'' None)"
  by (simp add: namehash_supported supported_crypto childhash_def hash_child hash_root)

theorem childhash_of_namehash_witness:
  "isSupportedDomain ''world.crypto'' \<and> isSupportedDomain ''hello.world.crypto'' \<and>
   namehash ''hello.world.crypto'' = Inr (childhash (hash ''world.crypto'') ''hello'' None)"
  using childhash_of_namehash [of "''world.crypto''" "''hello''"]
    supported_world supported_hello_world
  by (simp add: namehash_supported)

section \<open>The hash fixtures\<close>

text \<open>
  Equations for evaluating the hash: list access by pattern matching, and the bitwise
  operations of a lane one bit at a time.
\<close>

lemma take_code [code]:
  "take 0 xs = []" "take (Suc n) [] = []" "take (Suc n) (x # xs) = x # take n xs"
  by simp_all

lemma drop_code [code]:
  "drop 0 xs = xs" "drop (Suc n) [] = []" "drop (Suc n) (x # xs) = drop n xs"
  by simp_all

lemma nth_code [code]:
  "(x # xs) ! 0 = x" "(x # xs) ! Suc n = xs ! n"
  by simp_all

lemma xor_lane_code [code]:
  "xor_lane (True # as) (True # bs) = False # xor_lane as bs"
  "xor_lane (True # as) (False # bs) = True # xor_lane as bs"
  "xor_lane (False # as) (True # bs) = True # xor_lane as bs"
  "xor_lane (False # as) (False # bs) = False # xor_lane as bs"
  "xor_lane [] y = []"
  "xor_lane (a # as) [] = []"
  by simp_all

lemma chi_lane_code [code]:
  "chi_lane (False # as) (False # bs) (False # cs) = False # chi_lane as bs cs"
  "chi_lane (False # as) (False # bs) (True # cs) = True # chi_lane as bs cs"
  "chi_lane (False # as) (True # bs) (c # cs) = False # chi_lane as bs cs"
  "chi_lane (True # as) (False # bs) (False # cs) = True # chi_lane as bs cs"
  "chi_lane (True # as) (False # bs) (True # cs) = False # chi_lane as bs cs"
  "chi_lane (True # as) (True # bs) (c # cs) = True # chi_lane as bs cs"
  "chi_lane [] y z = []"
  "chi_lane (a # as) [] z = []"
  "chi_lane (a # as) (b # bs) [] = []"
  by simp_all

lemma hash_crypto:
  "hash ''crypto'' = ''0x0f4a10a4f46c288cea365fcf45cccf0e9d901b945b9829ccdb54c10dc3cb7a6f''"
  by code_simp

lemma childhash_of_hyphen_first:
  "childhash_of ''0x0f4a10a4f46c288cea365fcf45cccf0e9d901b945b9829ccdb54c10dc3cb7a6f''
     ''-hello'' \<lparr> prefix = True \<rparr> =
   ''0xc4ad028bcae9b201104e15f872d3e85b182939b06829f75a128275177f2ff9b2''"
  by code_simp

lemma childhash_of_hyphen_last:
  "childhash_of ''0x0f4a10a4f46c288cea365fcf45cccf0e9d901b945b9829ccdb54c10dc3cb7a6f''
     ''hello-'' \<lparr> prefix = True \<rparr> =
   ''0x82eaa6ef14e438940bfd7747e0e4c4fec42af20cee28ddd0a7d79f52b1c59b72''"
  by code_simp

lemma childhash_of_hyphen_both:
  "childhash_of ''0x0f4a10a4f46c288cea365fcf45cccf0e9d901b945b9829ccdb54c10dc3cb7a6f''
     ''-hello-'' \<lparr> prefix = True \<rparr> =
   ''0x90cc1963ff09ce95ee2dbb3830df4f2115da9756e087a50283b3e65f6ffe2a4e''"
  by code_simp

lemma supported_hyphens:
  "isSupportedDomain ''-hello.crypto''" "isSupportedDomain ''hello-.crypto''"
  "isSupportedDomain ''-hello-.crypto''"
  by code_simp+

lemma hash_hyphens:
  "hash ''-hello.crypto'' = childhash_of (hash ''crypto'') ''-hello'' \<lparr> prefix = True \<rparr>"
  "hash ''hello-.crypto'' = childhash_of (hash ''crypto'') ''hello-'' \<lparr> prefix = True \<rparr>"
  "hash ''-hello-.crypto'' = childhash_of (hash ''crypto'') ''-hello-'' \<lparr> prefix = True \<rparr>"
  using hash_child [of "''-hello''" "''crypto''"] hash_child [of "''hello-''" "''crypto''"]
    hash_child [of "''-hello-''" "''crypto''"]
  by simp_all

text \<open>
  Claim C3: the four fixtures. \<open>namehash\<close> of \<^verbatim>\<open>crypto\<close>, \<^verbatim>\<open>-hello.crypto\<close>,
  \<^verbatim>\<open>hello-.crypto\<close> and \<^verbatim>\<open>-hello-.crypto\<close> are the values of the tests; a label with a
  hyphen is hashed by the same step as any other label, from the hash of \<^verbatim>\<open>crypto\<close>.
\<close>

theorem namehash_fixtures:
  "namehash ''crypto'' =
     Inr ''0x0f4a10a4f46c288cea365fcf45cccf0e9d901b945b9829ccdb54c10dc3cb7a6f'' \<and>
   namehash ''-hello.crypto'' =
     Inr ''0xc4ad028bcae9b201104e15f872d3e85b182939b06829f75a128275177f2ff9b2'' \<and>
   namehash ''hello-.crypto'' =
     Inr ''0x82eaa6ef14e438940bfd7747e0e4c4fec42af20cee28ddd0a7d79f52b1c59b72'' \<and>
   namehash ''-hello-.crypto'' =
     Inr ''0x90cc1963ff09ce95ee2dbb3830df4f2115da9756e087a50283b3e65f6ffe2a4e'' \<and>
   namehash ''-hello.crypto'' = Inr (childhash (hash ''crypto'') ''-hello'' None) \<and>
   namehash ''hello-.crypto'' = Inr (childhash (hash ''crypto'') ''hello-'' None) \<and>
   namehash ''-hello-.crypto'' = Inr (childhash (hash ''crypto'') ''-hello-'' None)"
  by (simp only: namehash_supported supported_crypto supported_hyphens hash_hyphens
      hash_crypto childhash_of_hyphen_first childhash_of_hyphen_last childhash_of_hyphen_both
      childhash_def option.case simp_thms)

end
